(* ===== verification/Prelude.thy ===== *)
theory Prelude
  imports Main "HOL-Library.Word"
begin

text \<open>
  Shared vocabulary of the development: how JavaScript values are represented, the few
  JavaScript built-ins the application relies on (indexing an array, splitting and joining
  strings), and the generic list and option lemmas the component theories use.
  A JavaScript string is a sequence of UTF-16 code units, so text that may hold any
  character (server responses, the displayed prediction) is a list of \<open>16 word\<close>;
  identifiers that are ASCII by construction (URLs, route paths, form field names) are
  plain \<open>string\<close>s.
\<close>

named_theorems handler_simps \<open>equations of the application's event handlers\<close>

type_synonym js_string = "16 word list"

text \<open>An ASCII literal written in the source, as UTF-16 code units.\<close>

definition js_lit :: "string \<Rightarrow> js_string" where
  "js_lit s = map (\<lambda>c. of_nat (of_char c)) s"

text \<open>
  \<open>xs[i]\<close> on a JavaScript array (or array-like \<open>FileList\<close>): the element, or
  \<open>undefined\<close> (here \<open>None\<close>) when the index is out of range; it never raises.
\<close>

definition js_index :: "'a list \<Rightarrow> nat \<Rightarrow> 'a option" where
  "js_index xs i = (if i < length xs then Some (xs ! i) else None)"

text \<open>
  \<open>s.split(c)\<close> for a one-character separator: always at least one piece, and
  \<open>''.split(c)\<close> is \<open>['']\<close>. \<open>ws.join(c)\<close> is its inverse.
\<close>

fun js_split :: "'a \<Rightarrow> 'a list \<Rightarrow> 'a list list" where
  "js_split c [] = [[]]"
| "js_split c (x # xs) =
     (let r = js_split c xs in if x = c then [] # r else (x # hd r) # tl r)"

fun js_join :: "'a \<Rightarrow> 'a list list \<Rightarrow> 'a list" where
  "js_join c [] = []"
| "js_join c [w] = w"
| "js_join c (w # v # ws) = w @ c # js_join c (v # ws)"

subsection \<open>Lemmas on the built-ins\<close>

lemma js_index_0 [simp]:
  "js_index [] 0 = None" "js_index (x # xs) 0 = Some x"
  by (simp_all add: js_index_def)

lemma js_index_None_iff [simp]: "js_index xs i = None \<longleftrightarrow> length xs \<le> i"
  by (simp add: js_index_def)

lemma js_split_not_Nil [simp]: "js_split c s \<noteq> []"
  by (induction s) (simp_all add: Let_def)

lemma js_split_sep_free:
  "c \<notin> set s \<Longrightarrow> js_split c s = [s]"
  by (induction s) (auto simp: Let_def)

lemma js_join_js_split [simp]: "js_join c (js_split c s) = s"
proof (induction s)
  case Nil
  then show ?case by simp
next
  case (Cons x xs)
  obtain w ws where r: "js_split c xs = w # ws"
    by (cases "js_split c xs") auto
  show ?case
  proof (cases "x = c")
    case True
    with Cons.IH r show ?thesis by (cases ws) simp_all
  next
    case False
    with Cons.IH r show ?thesis by (cases ws) simp_all
  qed
qed

lemma js_split_append_sep:
  "c \<notin> set w \<Longrightarrow> js_split c (w @ c # s) = w # js_split c s"
  by (induction w) (auto simp: Let_def)

lemma js_split_js_join:
  "ws \<noteq> [] \<Longrightarrow> \<forall>w \<in> set ws. c \<notin> set w \<Longrightarrow> js_split c (js_join c ws) = ws"
proof (induction c ws rule: js_join.induct)
  case (2 c w)
  then show ?case by (simp add: js_split_sep_free)
next
  case (3 c w v ws)
  then show ?case by (simp add: js_split_append_sep)
qed simp

lemma js_lit_length [simp]: "length (js_lit s) = length s"
  by (simp add: js_lit_def)

lemma js_lit_append [simp]: "js_lit (s @ t) = js_lit s @ js_lit t"
  by (simp add: js_lit_def)

end
