(* ===== verification/Http_Client.thy ===== *)
theory Http_Client
  imports Prelude
begin

text \<open>
  The platform the application calls and does not implement: the browser's \<open>File\<close> and
  \<open>FormData\<close>, Angular's \<open>HttpClient.post\<close> with \<open>responseType: 'text'\<close>, and
  the RxJS subscriber protocol through which the component receives the result. These are
  modelled from their documented contracts, as the interface the application's code is
  written against: a request is a value (what goes on the wire), the server's answer is an
  outcome chosen by the environment, and the observable turns the outcome into a sequence of
  notifications that a subscriber consumes until the first terminal one.
\<close>

subsection \<open>Browser values: File and FormData\<close>

record js_file =
  file_name :: string
  file_type :: string
  file_bytes :: "8 word list"

datatype form_value = FormFile js_file | FormString string

type_synonym form_data = "(string \<times> form_value) list"

text \<open>\<open>new FormData()\<close>, \<open>fd.append(name, value)\<close> (entries keep their order and
  duplicates) and \<open>fd.get(name)\<close> (the first entry of that name, or \<open>null\<close>).\<close>

definition form_data_new :: form_data where
  "form_data_new = []"

definition form_data_append :: "form_data \<Rightarrow> string \<Rightarrow> form_value \<Rightarrow> form_data" where
  "form_data_append fd n v = fd @ [(n, v)]"

fun form_data_get :: "form_data \<Rightarrow> string \<Rightarrow> form_value option" where
  "form_data_get [] n = None"
| "form_data_get ((m, v) # fd) n = (if m = n then Some v else form_data_get fd n)"

subsection \<open>HttpClient requests and outcomes\<close>

text \<open>The \<open>HttpClient\<close> instance an injector hands out; it has no state the model
  observes, so there is one value.\<close>

datatype http_client = HttpClient

datatype http_method = GET | POST | PUT | DELETE | PATCH

datatype response_type = RespJson | RespText | RespBlob | RespArrayBuffer

record http_request =
  req_method :: http_method
  req_url :: string
  req_body :: form_data
  req_response_type :: response_type

definition http_post :: "string \<Rightarrow> form_data \<Rightarrow> response_type \<Rightarrow> http_request" where
  "http_post u b rt = \<lparr>req_method = POST, req_url = u, req_body = b, req_response_type = rt\<rparr>"

text \<open>What the environment answers: a response with a status code and a text body, or a
  failure below HTTP (connection refused, CORS rejection, abort).\<close>

datatype http_outcome = Received nat js_string | NetworkFailure

record http_error_response =
  error_status :: nat
  error_body :: "js_string option"

definition http_ok :: "nat \<Rightarrow> bool" where
  "http_ok st \<longleftrightarrow> 200 \<le> st \<and> st < 300"

subsection \<open>RxJS notifications and subscribers\<close>

datatype ('a, 'e) notification = Next 'a | Error 'e | Complete

text \<open>
  \<open>subscribe(next, error, complete)\<close>: the notifications reach the handlers in order, and
  the subscriber is closed by the first \<open>error\<close> or \<open>complete\<close>, after which nothing
  is delivered.
\<close>

fun deliver ::
  "('a \<Rightarrow> 's \<Rightarrow> 's) \<Rightarrow> ('e \<Rightarrow> 's \<Rightarrow> 's) \<Rightarrow> ('s \<Rightarrow> 's) \<Rightarrow> ('a, 'e) notification list \<Rightarrow> 's \<Rightarrow> 's"
where
  "deliver nx er cp [] s = s"
| "deliver nx er cp (Next a # ns) s = deliver nx er cp ns (nx a s)"
| "deliver nx er cp (Error e # ns) s = er e s"
| "deliver nx er cp (Complete # ns) s = cp s"

text \<open>
  The observable returned by \<open>post(url, body, {responseType: 'text'})\<close>, following the
  \<open>load\<close> handler of Angular's XHR backend and the \<open>observe: 'body'\<close> projection:
  the status 1223 is read as 204 (\<open>xhr_status\<close>); a 204 answer has the body
  \<open>null\<close>, any other the response text (\<open>xhr_body\<close>); the status 0 becomes 200 when
  a body is present and stays 0 otherwise (\<open>load_status\<close>). A 2xx status then emits the
  body and completes; any other errors with an \<open>HttpErrorResponse\<close> carrying the status
  and body. A network failure (the \<open>error\<close> event) errors with status 0 and no body.
\<close>

definition xhr_status :: "nat \<Rightarrow> nat" where
  "xhr_status st = (if st = 1223 then 204 else st)"

definition xhr_body :: "nat \<Rightarrow> js_string \<Rightarrow> js_string option" where
  "xhr_body st b = (if xhr_status st = 204 then None else Some b)"

definition load_status :: "nat \<Rightarrow> js_string \<Rightarrow> nat" where
  "load_status st b =
     (if xhr_status st = 0 then (if xhr_body st b \<noteq> None \<and> xhr_body st b \<noteq> Some [] then 200 else 0)
      else xhr_status st)"

fun text_notifications ::
  "http_outcome \<Rightarrow> (js_string option, http_error_response) notification list"
where
  "text_notifications (Received st b) =
     (if http_ok (load_status st b) then [Next (xhr_body st b), Complete]
      else [Error \<lparr>error_status = load_status st b, error_body = xhr_body st b\<rparr>])"
| "text_notifications NetworkFailure = [Error \<lparr>error_status = 0, error_body = None\<rparr>]"

subsection \<open>Lemmas\<close>

lemma form_data_get_append:
  "form_data_get (form_data_append fd n v) m =
     (case form_data_get fd m of None \<Rightarrow> (if n = m then Some v else None) | Some w \<Rightarrow> Some w)"
  by (induction fd m rule: form_data_get.induct) (simp_all add: form_data_append_def)

lemma http_post_fields [simp]:
  "req_method (http_post u b rt) = POST" "req_url (http_post u b rt) = u"
  "req_body (http_post u b rt) = b" "req_response_type (http_post u b rt) = rt"
  by (simp_all add: http_post_def)

text \<open>Delivering the notifications of one HTTP exchange: the success handler then the
  completion handler, or the error handler alone.\<close>

text \<open>The three steps of the normalisation, for evaluating it on given answers.\<close>

lemmas xhr_defs = xhr_status_def xhr_body_def load_status_def

lemma deliver_text_notifications:
  "deliver nx er cp (text_notifications out) s =
     (case out of
        Received st b \<Rightarrow>
          if http_ok (load_status st b) then cp (nx (xhr_body st b) s)
          else er \<lparr>error_status = load_status st b, error_body = xhr_body st b\<rparr> s
      | NetworkFailure \<Rightarrow> er \<lparr>error_status = 0, error_body = None\<rparr> s)"
  by (cases out) simp_all

text \<open>How the normalisation reads the answers that matter: a 2xx status other than 204
  is passed on with its text; 204 (and 1223) succeed with no body; a failing status is
  reported as it came, with its text.\<close>

lemma load_status_2xx:
  "http_ok st \<Longrightarrow> st \<noteq> 204 \<Longrightarrow> load_status st b = st \<and> xhr_body st b = Some b"
  by (simp add: load_status_def xhr_body_def xhr_status_def http_ok_def)

lemma load_status_no_content:
  "st = 204 \<or> st = 1223 \<Longrightarrow> load_status st b = 204 \<and> xhr_body st b = None"
  by (auto simp: load_status_def xhr_body_def xhr_status_def)

lemma load_status_failure:
  "\<not> http_ok (load_status st b) \<Longrightarrow> load_status st b = st \<and> xhr_body st b = Some b"
  by (auto simp: load_status_def xhr_body_def xhr_status_def http_ok_def split: if_splits)

end
