(* ===== verification/Angular_Core.thy ===== *)
theory Angular_Core
  imports Prelude
begin

text \<open>
  The part of \<open>@angular/core\<close> that the two decorated classes rely on, library code
  modelled from its documented behaviour:
  \<^item> \<open>@Injectable({providedIn: ...})\<close> is \<open>injectable_meta\<close>; the root injector keeps at
    most one instance per token (\<open>'a option\<close>, the cache of that token) and
    \<open>inject\<close> returns the cached instance, or, the first time, runs the class's factory
    and caches its result. A class with no \<open>providedIn\<close> and no provider fails with
    \<open>NoProvider\<close>, Angular's \<open>NullInjectorError: No provider for ...\<close>; so does a
    factory whose own dependency has no provider.
  \<^item> \<open>@Component({...})\<close> is \<open>component_meta\<close>: the selector, the standalone imports
    (by name), the template and the style sheet.
\<close>

datatype provided_in = InRoot | InPlatform | InAny

record injectable_meta =
  providedIn :: "provided_in option"

datatype di_error = NoProvider string

definition inject ::
  "string \<Rightarrow> injectable_meta \<Rightarrow> di_error + 'a \<Rightarrow> 'a option \<Rightarrow> di_error + ('a \<times> 'a option)"
where
  "inject token meta factory cache =
     (case cache of
        Some x \<Rightarrow> Inr (x, cache)
      | None \<Rightarrow>
          (case providedIn meta of
             None \<Rightarrow> Inl (NoProvider token)
           | Some _ \<Rightarrow> (case factory of Inl e \<Rightarrow> Inl e | Inr x \<Rightarrow> Inr (x, Some x))))"

record component_meta =
  selector :: string
  meta_imports :: "string list"
  templateUrl :: string
  styleUrl :: string

subsection \<open>The root injector\<close>

lemma inject_cached [simp]: "inject token meta factory (Some x) = Inr (x, Some x)"
  by (simp add: inject_def)

end
