(* ===== verification/Plant_Disease_Service.thy ===== *)
theory Plant_Disease_Service
  imports Http_Client Angular_Core
begin

text \<open>
  \<open>src/src/app/service/plant-disease.service.ts\<close>: the injectable
  \<open>PlantDiseaseService\<close>. Its decorator provides it in the root injector
  (\<open>plantDiseaseService_injectable\<close>); its constructor sets the private field
  \<open>apiUrl\<close> and keeps the injected \<open>HttpClient\<close> (\<open>new_PlantDiseaseService\<close>), and
  \<open>inject_PlantDiseaseService\<close> is how the root injector hands it out. Its only
  operation \<open>predictDisease\<close> builds a \<open>FormData\<close> with one entry \<open>'file'\<close> and
  returns the observable of \<open>HttpClient.post\<close> with a text response type. The
  observable is cold, so the model of \<open>predictDisease\<close> is the request it issues when
  subscribed; the notifications it then emits are \<^const>\<open>text_notifications\<close> of the
  server's answer.
\<close>

record plant_disease_service =
  apiUrl :: string
  http :: http_client

text \<open>The decorator: the service is provided in the root injector.\<close>

definition plantDiseaseService_injectable :: injectable_meta where
  "plantDiseaseService_injectable = \<lparr>providedIn = Some InRoot\<rparr>"

text \<open>The constructor: the field initialiser of \<open>apiUrl\<close>, then the injected client
  stored in the parameter property \<open>http\<close>.\<close>

definition new_PlantDiseaseService :: "http_client \<Rightarrow> plant_disease_service" where
  "new_PlantDiseaseService h = \<lparr>apiUrl = ''http://localhost:8080/api/predict'', http = h\<rparr>"

definition init_plant_disease_service :: plant_disease_service where
  "init_plant_disease_service = new_PlantDiseaseService HttpClient"

text \<open>Injecting the service: the root injector runs the constructor once, which needs a
  provider of \<open>HttpClient\<close> (\<open>hp\<close>, \<open>None\<close> when the application configuration
  has none).\<close>

definition inject_PlantDiseaseService ::
  "http_client option \<Rightarrow> plant_disease_service option \<Rightarrow>
   di_error + (plant_disease_service \<times> plant_disease_service option)"
where
  "inject_PlantDiseaseService hp cache =
     inject ''PlantDiseaseService'' plantDiseaseService_injectable
       (case hp of None \<Rightarrow> Inl (NoProvider ''HttpClient'') | Some h \<Rightarrow> Inr (new_PlantDiseaseService h))
       cache"

definition predictDisease :: "plant_disease_service \<Rightarrow> js_file \<Rightarrow> http_request" where
  "predictDisease svc f =
     (let formData = form_data_append form_data_new ''file'' (FormFile f)
      in http_post (apiUrl svc) formData RespText)"

text \<open>The request is one POST to the configured URL, whose multipart body has exactly one
  part, named \<open>file\<close>, holding the file unchanged, and whose answer is read as text.\<close>

lemma predictDisease_request:
  "predictDisease svc f =
     \<lparr>req_method = POST, req_url = apiUrl svc, req_body = [(''file'', FormFile f)],
      req_response_type = RespText\<rparr>"
  by (simp add: predictDisease_def form_data_append_def form_data_new_def http_post_def)

lemma predictDisease_file_field:
  "form_data_get (req_body (predictDisease svc f)) ''file'' = Some (FormFile f)"
  by (simp add: predictDisease_request)

lemma predictDisease_inj: "predictDisease svc f = predictDisease svc g \<longleftrightarrow> f = g"
  by (simp add: predictDisease_request)

end
