(* ===== verification/Predict_Disease_Component.thy ===== *)
theory Predict_Disease_Component
  imports Plant_Disease_Service
begin

text \<open>
  \<open>src/src/app/features/predict-disease/predict-disease.component.ts\<close>: the class
  \<open>PredictDiseaseComponent\<close> with its two fields and its two event handlers, and the two
  callbacks that \<open>onUpload\<close> passes to \<open>subscribe\<close>. The handlers run on the browser's
  event loop one at a time, so each is a function on an explicit state, \<open>app_state\<close>,
  that holds the component and the parts of the world it touches: the service, the HTTP
  requests still waiting for their answer (by request number), the requests sent so far,
  and the console. An HTTP answer arrives as an event of its own, at any later time and in
  any order with the other answers: \<open>app_step\<close> is the deterministic step on one
  event, \<open>step\<close> the relation that allows only answers to outstanding requests, and
  \<open>reachable\<close> the states reachable from the freshly created component. The
  decorator's metadata is \<open>predictDiseaseComponent_meta\<close> and the constructor, which
  resolves the service through the root injector, is \<open>new_PredictDiseaseComponent\<close>.
  Besides the behaviour of each handler, the lemmas give the invariant of the request
  bookkeeping that the refinement of \<open>Component_Spec\<close> relies on.
\<close>

subsection \<open>State\<close>

record predict_disease_component =
  selectedFile :: "js_file option"
  prediction :: "js_string option"

text \<open>The decorator's metadata.\<close>

definition predictDiseaseComponent_meta :: component_meta where
  "predictDiseaseComponent_meta =
     \<lparr>selector = ''app-predict-disease'', meta_imports = [''CommonModule''],
      templateUrl = ''./predict-disease.component.html'',
      styleUrl = ''./predict-disease.component.css''\<rparr>"

definition init_predict_disease_component :: predict_disease_component where
  "init_predict_disease_component = \<lparr>selectedFile = None, prediction = None\<rparr>"

text \<open>Creating the component, as the router does when it activates the route: the field
  initialisers, then the constructor's parameter \<open>plantDiseaseService\<close>, which the
  injector resolves from its cache of root services.\<close>

definition new_PredictDiseaseComponent ::
  "http_client option \<Rightarrow> plant_disease_service option \<Rightarrow>
   di_error + ((predict_disease_component \<times> plant_disease_service) \<times> plant_disease_service option)"
where
  "new_PredictDiseaseComponent hp cache =
     (case inject_PlantDiseaseService hp cache of
        Inl e \<Rightarrow> Inl e
      | Inr (s, cache') \<Rightarrow> Inr ((init_predict_disease_component, s), cache'))"

type_synonym console_entry = "js_string \<times> http_error_response"

record app_state =
  comp :: predict_disease_component
  svc :: plant_disease_service
  pending :: "nat \<rightharpoonup> http_request"
  next_req :: nat
  network :: "http_request list"
  console :: "console_entry list"

definition init_app :: app_state where
  "init_app = \<lparr>comp = init_predict_disease_component, svc = init_plant_disease_service,
               pending = Map.empty, next_req = 0, network = [], console = []\<rparr>"

text \<open>The two French literals of the source; \<open>\<acute>e\<close> is the code unit \<open>0xE9\<close>.\<close>

definition error_message :: js_string where
  "error_message = js_lit ''Erreur lors de la pr'' @ [0xE9] @ js_lit ''diction''"

definition error_log_message :: js_string where
  "error_log_message = js_lit ''Erreur lors de la pr'' @ [0xE9] @ js_lit ''diction :''"

subsection \<open>Handlers\<close>

text \<open>\<open>this.selectedFile = event.target.files[0]\<close>: the first file of the picker's
  \<open>FileList\<close>, or \<open>undefined\<close> when the list is empty.\<close>

definition onFileSelected :: "js_file list \<Rightarrow> app_state \<Rightarrow> app_state" where
  "onFileSelected files s = s\<lparr>comp := (comp s)\<lparr>selectedFile := js_index files 0\<rparr>\<rparr>"

text \<open>The success callback of the subscription.\<close>

definition onUpload_next :: "js_string option \<Rightarrow> app_state \<Rightarrow> app_state" where
  "onUpload_next response s = s\<lparr>comp := (comp s)\<lparr>prediction := response\<rparr>\<rparr>"

text \<open>The error callback: \<open>console.error\<close>, then the fixed message.\<close>

definition onUpload_error :: "http_error_response \<Rightarrow> app_state \<Rightarrow> app_state" where
  "onUpload_error err s =
     (let s1 = s\<lparr>console := console s @ [(error_log_message, err)]\<rparr>
      in s1\<lparr>comp := (comp s1)\<lparr>prediction := Some error_message\<rparr>\<rparr>)"

text \<open>Subscribing to the cold observable of \<^const>\<open>predictDisease\<close> sends its request: it
  goes on the wire and waits under the next request number.\<close>

definition http_subscribe :: "http_request \<Rightarrow> app_state \<Rightarrow> app_state" where
  "http_subscribe req s =
     s\<lparr>pending := (pending s)(next_req s \<mapsto> req), next_req := Suc (next_req s),
       network := network s @ [req]\<rparr>"

definition onUpload :: "app_state \<Rightarrow> app_state" where
  "onUpload s =
     (case selectedFile (comp s) of
        None \<Rightarrow> s
      | Some f \<Rightarrow> http_subscribe (predictDisease (svc s) f) s)"

text \<open>The answer to request \<open>i\<close> arrives: the subscription is removed and its
  notifications reach the two callbacks (no completion callback is given). An answer to a
  request that is not outstanding changes nothing.\<close>

definition http_settle :: "nat \<Rightarrow> http_outcome \<Rightarrow> app_state \<Rightarrow> app_state" where
  "http_settle i out s =
     (case pending s i of
        None \<Rightarrow> s
      | Some req \<Rightarrow>
          deliver onUpload_next onUpload_error id (text_notifications out)
            (s\<lparr>pending := (pending s)(i := None)\<rparr>))"

subsection \<open>Events, steps and runs\<close>

datatype app_event = FileSelected "js_file list" | Upload | Settle nat http_outcome

fun app_step :: "app_state \<Rightarrow> app_event \<Rightarrow> app_state" where
  "app_step s (FileSelected fs) = onFileSelected fs s"
| "app_step s Upload = onUpload s"
| "app_step s (Settle i out) = http_settle i out s"

fun enabled :: "app_state \<Rightarrow> app_event \<Rightarrow> bool" where
  "enabled s (Settle i out) = (pending s i \<noteq> None)"
| "enabled s e = True"

inductive step :: "app_state \<Rightarrow> app_event \<Rightarrow> app_state \<Rightarrow> bool" where
  select: "step s (FileSelected fs) (onFileSelected fs s)"
| upload: "step s Upload (onUpload s)"
| settle: "pending s i = Some req \<Longrightarrow> step s (Settle i out) (http_settle i out s)"

inductive reachable :: "app_state \<Rightarrow> bool" where
  init: "reachable init_app"
| step: "reachable s \<Longrightarrow> step s e t \<Longrightarrow> reachable t"

fun run :: "app_state \<Rightarrow> app_event list \<Rightarrow> app_state" where
  "run s [] = s"
| "run s (e # es) = run (app_step s e) es"

fun valid_run :: "app_state \<Rightarrow> app_event list \<Rightarrow> bool" where
  "valid_run s [] = True"
| "valid_run s (e # es) = (enabled s e \<and> valid_run (app_step s e) es)"

inductive_cases step_SettleE: "step s (Settle i out) t"

text \<open>What the page shows after an answer, as the specification states it: the body of a
  2xx response, the fixed message otherwise.\<close>

fun displayed_text :: "http_outcome \<Rightarrow> js_string option" where
  "displayed_text (Received st b) = (if http_ok (load_status st b) then xhr_body st b else Some error_message)"
| "displayed_text NetworkFailure = Some error_message"

fun settled_outcomes :: "app_event list \<Rightarrow> http_outcome list" where
  "settled_outcomes [] = []"
| "settled_outcomes (Settle i out # es) = out # settled_outcomes es"
| "settled_outcomes (e # es) = settled_outcomes es"

definition app_inv :: "app_state \<Rightarrow> bool" where
  "app_inv s \<longleftrightarrow>
     length (network s) = next_req s \<and>
     (\<forall>i req. pending s i = Some req \<longrightarrow> i < next_req s \<and> network s ! i = req) \<and>
     (\<forall>req \<in> set (network s). \<exists>f. req = predictDisease (svc s) f) \<and>
     (\<forall>m \<in> set (console s). fst m = error_log_message)"

text \<open>What the console holds: only the fixed log message, each with the error of a failed
  request.\<close>

definition console_ok :: "app_state \<Rightarrow> bool" where
  "console_ok s \<longleftrightarrow> (\<forall>(m, e) \<in> set (console s). m = error_log_message \<and> \<not> http_ok (error_status e))"

text \<open>Example inputs for the witnesses: two picked images and a run in which the answers
  to two uploads arrive in the opposite order.\<close>

definition leaf :: js_file where
  "leaf = \<lparr>file_name = ''leaf.jpg'', file_type = ''image/jpeg'', file_bytes = [0xFF, 0xD8, 0xFF]\<rparr>"

definition leaf2 :: js_file where
  "leaf2 = \<lparr>file_name = ''leaf2.jpg'', file_type = ''image/jpeg'', file_bytes = [0xFF, 0xD8]\<rparr>"

definition stale_trace :: "app_event list" where
  "stale_trace = [FileSelected [leaf], Upload, FileSelected [leaf2], Upload,
                  Settle 1 (Received 200 (js_lit ''Blight'')),
                  Settle 0 (Received 200 (js_lit ''Healthy''))]"

text \<open>A page that shows an answer and has a second upload of the same file outstanding.\<close>

definition shown_then_uploaded :: app_state where
  "shown_then_uploaded =
     onUpload (http_settle 0 (Received 200 (js_lit ''Healthy'')) (onUpload (onFileSelected [leaf] init_app)))"

subsection \<open>Effects of each handler\<close>

lemma onFileSelected_simps [handler_simps]:
  "selectedFile (comp (onFileSelected fs s)) = js_index fs 0"
  "prediction (comp (onFileSelected fs s)) = prediction (comp s)"
  "svc (onFileSelected fs s) = svc s" "pending (onFileSelected fs s) = pending s"
  "next_req (onFileSelected fs s) = next_req s" "network (onFileSelected fs s) = network s"
  "console (onFileSelected fs s) = console s"
  by (simp_all add: onFileSelected_def)

lemma http_subscribe_simps [handler_simps]:
  "comp (http_subscribe req s) = comp s" "svc (http_subscribe req s) = svc s"
  "pending (http_subscribe req s) = (pending s)(next_req s \<mapsto> req)"
  "next_req (http_subscribe req s) = Suc (next_req s)"
  "network (http_subscribe req s) = network s @ [req]"
  "console (http_subscribe req s) = console s"
  by (simp_all add: http_subscribe_def)

lemma onUpload_Some [handler_simps]:
  "selectedFile (comp s) = Some f \<Longrightarrow> onUpload s = http_subscribe (predictDisease (svc s) f) s"
  by (simp add: onUpload_def)

lemma onUpload_preserves [handler_simps]:
  "comp (onUpload s) = comp s" "svc (onUpload s) = svc s" "console (onUpload s) = console s"
  by (simp_all add: onUpload_def handler_simps split: option.split)

lemma http_settle_not_pending [handler_simps]: "pending s i = None \<Longrightarrow> http_settle i out s = s"
  by (simp add: http_settle_def)

text \<open>The answer to an outstanding request, by outcome.\<close>

lemma http_settle_Some:
  assumes "pending s i = Some req"
  shows "http_settle i out s =
    (let s0 = s\<lparr>pending := (pending s)(i := None)\<rparr> in
     case out of
       Received st b \<Rightarrow>
         if http_ok (load_status st b) then onUpload_next (xhr_body st b) s0
         else onUpload_error \<lparr>error_status = load_status st b, error_body = xhr_body st b\<rparr> s0
     | NetworkFailure \<Rightarrow> onUpload_error \<lparr>error_status = 0, error_body = None\<rparr> s0)"
  using assms by (cases out) (simp_all add: http_settle_def deliver_text_notifications)

lemma http_settle_simps [handler_simps]:
  assumes "pending s i = Some req"
  shows "selectedFile (comp (http_settle i out s)) = selectedFile (comp s)"
    and "prediction (comp (http_settle i out s)) = displayed_text out"
    and "svc (http_settle i out s) = svc s"
    and "pending (http_settle i out s) = (pending s)(i := None)"
    and "next_req (http_settle i out s) = next_req s"
    and "network (http_settle i out s) = network s"
    and "console (http_settle i out s) = console s @
           (case out of
              Received st b \<Rightarrow>
                if http_ok (load_status st b) then []
                else [(error_log_message, \<lparr>error_status = load_status st b, error_body = xhr_body st b\<rparr>)]
            | NetworkFailure \<Rightarrow> [(error_log_message, \<lparr>error_status = 0, error_body = None\<rparr>)])"
  using assms
  by (simp_all add: http_settle_Some onUpload_next_def onUpload_error_def Let_def
      split: http_outcome.split)

subsection \<open>The invariant\<close>

lemma app_inv_init: "app_inv init_app"
  by (simp add: app_inv_def init_app_def)

lemma app_inv_finite_pending: "app_inv s \<Longrightarrow> finite (dom (pending s))"
  by (rule finite_subset[of _ "{..<next_req s}"]) (auto simp: app_inv_def)

lemma app_inv_next_fresh: "app_inv s \<Longrightarrow> pending s (next_req s) = None"
  unfolding app_inv_def by (metis less_irrefl option.exhaust)

lemma app_inv_onFileSelected: "app_inv s \<Longrightarrow> app_inv (onFileSelected fs s)"
  by (simp add: app_inv_def handler_simps)

lemma app_inv_http_subscribe:
  assumes "app_inv s" and "req = predictDisease (svc s) f"
  shows "app_inv (http_subscribe req s)"
  using assms by (force simp: app_inv_def handler_simps nth_append)

lemma app_inv_onUpload: "app_inv s \<Longrightarrow> app_inv (onUpload s)"
  by (cases "selectedFile (comp s)") (simp_all add: onUpload_def app_inv_http_subscribe)

lemma app_inv_http_settle: "app_inv s \<Longrightarrow> app_inv (http_settle i out s)"
proof (cases "pending s i")
  case None
  assume "app_inv s"
  with None show ?thesis by (simp add: http_settle_not_pending)
next
  case (Some req)
  assume inv: "app_inv s"
  with Some show ?thesis
    by (cases out) (auto simp: app_inv_def http_settle_simps[OF Some])
qed

lemma app_inv_step: "step s e t \<Longrightarrow> app_inv s \<Longrightarrow> app_inv t"
  by (induction rule: step.induct)
     (simp_all add: app_inv_onFileSelected app_inv_onUpload app_inv_http_settle)

lemma prediction_app_step:
  "enabled s e \<Longrightarrow> prediction (comp (app_step s e)) =
     (case e of Settle i out \<Rightarrow> displayed_text out | _ \<Rightarrow> prediction (comp s))"
  by (cases e) (auto simp: handler_simps onUpload_def split: option.split)

lemma reachable_uploaded_leaf: "reachable (onUpload (onFileSelected [leaf] init_app))"
proof -
  have "reachable (onFileSelected [leaf] init_app)"
    by (rule reachable.step [OF reachable.init step.select])
  then show ?thesis by (rule reachable.step [OF _ step.upload])
qed

lemma pending_uploaded_leaf:
  "pending (onUpload (onFileSelected [leaf] init_app)) 0 =
     Some (predictDisease init_plant_disease_service leaf)"
  by (simp add: onUpload_Some handler_simps init_app_def)

lemma console_ok_step: "step s e t \<Longrightarrow> console_ok s \<Longrightarrow> console_ok t"
proof (induction rule: step.induct)
  case (settle s i req out)
  then show ?case
    by (cases out) (auto simp: console_ok_def http_settle_simps http_ok_def)
qed (simp_all add: console_ok_def handler_simps)

lemma shown_then_uploaded_simps:
  "prediction (comp shown_then_uploaded) = Some (js_lit ''Healthy'')"
  "selectedFile (comp shown_then_uploaded) = Some leaf"
  "pending shown_then_uploaded = [1 \<mapsto> predictDisease init_plant_disease_service leaf]"
proof -
  let ?s = "http_settle 0 (Received 200 (js_lit ''Healthy'')) (onUpload (onFileSelected [leaf] init_app))"
  have s: "prediction (comp ?s) = Some (js_lit ''Healthy'')" "selectedFile (comp ?s) = Some leaf"
    "pending ?s = Map.empty" "next_req ?s = 1" "svc ?s = init_plant_disease_service"
    using pending_uploaded_leaf
    by (simp_all add: http_settle_simps xhr_defs http_ok_def handler_simps onUpload_Some init_app_def)
  then show "prediction (comp shown_then_uploaded) = Some (js_lit ''Healthy'')"
    "selectedFile (comp shown_then_uploaded) = Some leaf"
    "pending shown_then_uploaded = [1 \<mapsto> predictDisease init_plant_disease_service leaf]"
    by (simp_all add: shown_then_uploaded_def onUpload_Some handler_simps)
qed

subsection \<open>Properties of the component\<close>

text \<open>C1. Clicking upload with a file selected sends exactly one request: a POST to the
  service's URL whose form body has the single field \<open>file\<close> holding that file, read
  back as text. The component's fields and the console are untouched until the answer.\<close>

theorem onUpload_sends_one_post:
  assumes "selectedFile (comp s) = Some f"
  shows "network (onUpload s) = network s @
           [\<lparr>req_method = POST, req_url = apiUrl (svc s), req_body = [(''file'', FormFile f)],
             req_response_type = RespText\<rparr>]
         \<and> comp (onUpload s) = comp s \<and> console (onUpload s) = console s"
  using assms by (simp add: onUpload_Some handler_simps predictDisease_request)

theorem onUpload_sends_one_post_witness:
  "selectedFile (comp (onFileSelected [leaf] init_app)) = Some leaf \<and>
   network (onUpload (onFileSelected [leaf] init_app)) =
     [\<lparr>req_method = POST, req_url = ''http://localhost:8080/api/predict'',
       req_body = [(''file'', FormFile leaf)], req_response_type = RespText\<rparr>]"
  using onUpload_sends_one_post[of "onFileSelected [leaf] init_app" leaf]
  by (simp add: handler_simps init_app_def init_plant_disease_service_def new_PlantDiseaseService_def)

text \<open>C2. Clicking upload with no file selected does nothing at all: no request, no change
  of the displayed prediction.\<close>

theorem onUpload_no_file: "selectedFile (comp s) = None \<Longrightarrow> onUpload s = s"
  by (simp add: onUpload_def)

theorem onUpload_no_file_witness:
  "selectedFile (comp init_app) = None \<and> onUpload init_app = init_app"
  using onUpload_no_file[of init_app]
  by (simp add: init_app_def init_predict_disease_component_def)

text \<open>C3. When an outstanding request is answered with a 2xx status other than 204 (No
  Content), the prediction becomes the response body exactly; the selected file and the
  console are unchanged.\<close>

theorem settle_success_shows_body:
  assumes "pending s i = Some req" and "http_ok st" and "st \<noteq> 204"
  shows "prediction (comp (http_settle i (Received st b) s)) = Some b
         \<and> selectedFile (comp (http_settle i (Received st b) s)) = selectedFile (comp s)
         \<and> console (http_settle i (Received st b) s) = console s"
  using assms load_status_2xx[OF assms(2,3), of b] by (simp add: http_settle_simps)

theorem settle_success_shows_body_witness:
  "prediction (comp (http_settle 0 (Received 200 (js_lit ''Healthy''))
      (onUpload (onFileSelected [leaf] init_app)))) = Some (js_lit ''Healthy'')"
  using settle_success_shows_body[OF pending_uploaded_leaf, of 200 "js_lit ''Healthy''"]
  by (simp add: http_ok_def)

text \<open>C4. When an outstanding request fails, by a status that is not 2xx once the XHR
  backend has normalised it, or below HTTP, the prediction becomes the fixed message
  whatever the cause, and the error, with the status and text as they came, is written to
  the console under the fixed log message.\<close>

theorem settle_failure_fixed_message:
  assumes "pending s i = Some req" and "\<not> http_ok (load_status st b)"
  shows "prediction (comp (http_settle i (Received st b) s)) = Some error_message
         \<and> prediction (comp (http_settle i NetworkFailure s)) = Some error_message
         \<and> console (http_settle i (Received st b) s) =
             console s @ [(error_log_message, \<lparr>error_status = st, error_body = Some b\<rparr>)]"
  using assms load_status_failure[OF assms(2)] by (simp add: http_settle_simps)

theorem settle_failure_fixed_message_witness:
  "prediction (comp (http_settle 0 (Received 500 [])
      (onUpload (onFileSelected [leaf] init_app)))) = Some error_message"
  using settle_failure_fixed_message[OF pending_uploaded_leaf, of 500 "[]"]
  by (simp add: http_ok_def xhr_defs)

text \<open>C5. Over any run in which only outstanding requests are answered, the displayed
  prediction is determined by the last answer to arrive, whatever the order in which the
  uploads were made; with no answer it is unchanged.\<close>

theorem run_prediction_last_settled:
  "valid_run s es \<Longrightarrow> prediction (comp (run s es)) =
     (if settled_outcomes es = [] then prediction (comp s)
      else displayed_text (last (settled_outcomes es)))"
proof (induction es arbitrary: s)
  case Nil
  then show ?case by simp
next
  case (Cons e es)
  then have en: "enabled s e" and v: "valid_run (app_step s e) es" by simp_all
  from Cons.IH[OF v] prediction_app_step[OF en] show ?case
    by (cases e) simp_all
qed

theorem run_prediction_last_settled_witness:
  "valid_run init_app stale_trace \<and>
   prediction (comp (run init_app stale_trace)) = Some (js_lit ''Healthy'')"
proof -
  have v: "valid_run init_app stale_trace"
    by (simp add: stale_trace_def init_app_def init_predict_disease_component_def onUpload_def
        onFileSelected_def http_subscribe_def http_settle_def onUpload_next_def http_ok_def xhr_defs)
  show ?thesis using run_prediction_last_settled[OF v] v
    by (simp add: stale_trace_def http_ok_def xhr_defs)
qed

text \<open>C6. A change event with an empty file list (the picker dialog cancelled) clears the
  selection, after which upload does nothing.\<close>

theorem cancelled_selection_disables_upload:
  "selectedFile (comp (onFileSelected [] s)) = None \<and>
   onUpload (onFileSelected [] s) = onFileSelected [] s"
  by (simp add: handler_simps onUpload_def)

text \<open>C12. What a selection followed by a click sends, for every length of the file list:
  an empty list (a cancelled picker) sends nothing, and a list of one or more files sends
  exactly one request, for the first file; the others are ignored.\<close>

theorem select_then_upload_sends_first:
  "network (onUpload (onFileSelected files s)) =
     network s @ (case files of [] \<Rightarrow> [] | f # _ \<Rightarrow> [predictDisease (svc s) f])"
  by (cases files) (simp_all add: onUpload_def handler_simps)

text \<open>C13. Clicks are not debounced and nothing waits for an outstanding request: \<open>n\<close>
  clicks with a file selected send \<open>n\<close> identical requests, take \<open>n\<close> request numbers,
  and leave the component unchanged.\<close>

theorem repeated_uploads_all_sent:
  assumes "selectedFile (comp s) = Some f"
  shows "network ((onUpload ^^ n) s) = network s @ replicate n (predictDisease (svc s) f)
         \<and> next_req ((onUpload ^^ n) s) = next_req s + n
         \<and> comp ((onUpload ^^ n) s) = comp s"
proof (induction n)
  case 0
  then show ?case by simp
next
  case (Suc n)
  let ?t = "(onUpload ^^ n) s"
  have "selectedFile (comp ?t) = Some f" "svc ?t = svc s"
  proof -
    show "svc ?t = svc s" by (induction n) (simp_all add: handler_simps)
  qed (use Suc assms in simp)
  with Suc show ?case by (simp add: onUpload_Some handler_simps replicate_append_same)
qed

theorem repeated_uploads_all_sent_witness:
  "selectedFile (comp (onFileSelected [leaf] init_app)) = Some leaf \<and>
   network ((onUpload ^^ 2) (onFileSelected [leaf] init_app)) =
     [predictDisease init_plant_disease_service leaf, predictDisease init_plant_disease_service leaf]"
  using repeated_uploads_all_sent[of "onFileSelected [leaf] init_app" leaf 2]
  by (simp add: handler_simps init_app_def numeral_2_eq_2)
text \<open>C15. The console records failures only: in every reachable state each entry is the
  fixed log message with an error whose status is not 2xx (0 for a network failure), so a
  successful answer is never logged as an error.\<close>

theorem reachable_console_failures_only:
  "reachable s \<Longrightarrow>
   \<forall>(m, e) \<in> set (console s). m = error_log_message \<and> \<not> http_ok (error_status e)"
proof -
  assume "reachable s"
  then have "console_ok s"
  proof (induction rule: reachable.induct)
    case init
    show ?case by (simp add: console_ok_def init_app_def)
  next
    case (step s e t)
    then show ?case by (blast intro: console_ok_step)
  qed
  then show ?thesis by (simp add: console_ok_def)
qed
theorem reachable_console_failures_only_witness:
  "reachable (http_settle 0 (Received 500 []) (onUpload (onFileSelected [leaf] init_app))) \<and>
   console (http_settle 0 (Received 500 []) (onUpload (onFileSelected [leaf] init_app))) =
     [(error_log_message, \<lparr>error_status = 500, error_body = Some []\<rparr>)] \<and>
   \<not> http_ok 500"
proof -
  let ?s = "http_settle 0 (Received 500 []) (onUpload (onFileSelected [leaf] init_app))"
  have r: "reachable ?s"
    by (rule reachable.step[OF reachable_uploaded_leaf step.settle[OF pending_uploaded_leaf]])
  have c: "console ?s = [(error_log_message, \<lparr>error_status = 500, error_body = Some []\<rparr>)]"
    using pending_uploaded_leaf
    by (simp add: http_settle_simps onUpload_Some handler_simps init_app_def http_ok_def xhr_defs)
  have "\<not> http_ok 500" using reachable_console_failures_only[OF r] c by simp
  with r c show ?thesis by blast
qed
text \<open>C16. An answer with status 204 (No Content), or 1223 which the XHR backend reads
  as 204, succeeds with a \<open>null\<close> body: the success callback assigns it, so any
  displayed prediction is cleared and nothing is logged, although the request succeeded.\<close>

theorem settle_no_content_clears:
  assumes "pending s i = Some req" and "st = 204 \<or> st = 1223"
  shows "prediction (comp (http_settle i (Received st b) s)) = None
         \<and> selectedFile (comp (http_settle i (Received st b) s)) = selectedFile (comp s)
         \<and> console (http_settle i (Received st b) s) = console s"
  using assms load_status_no_content[OF assms(2), of b] by (simp add: http_settle_simps http_ok_def)

theorem settle_no_content_clears_witness:
  "prediction (comp shown_then_uploaded) = Some (js_lit ''Healthy'')
   \<and> prediction (comp (http_settle 1 (Received 204 []) shown_then_uploaded)) = None"
  using settle_no_content_clears[of shown_then_uploaded 1 _ 204 "[]"] shown_then_uploaded_simps
  by simp

end
