(* ===== verification/Component_Spec.thy ===== *)
theory Component_Spec
  imports Predict_Disease_Component
begin

text \<open>
  The component's contract as the specification states it (section 4.2): a state with at
  most one selected file, at most one displayed text, and a number of uploads in flight
  that the page does not show. Selecting a file replaces the selection; upload with a
  file starts one more prediction and keeps the file, upload without one does nothing; an
  answer ends one prediction and shows its text, or the fixed message on failure.
  \<open>abs_state\<close> reads this abstract state off the concrete one (the number in flight is
  the number of outstanding requests) and \<open>abs_event\<close> maps each concrete event to the
  abstract event it should be. Every concrete step whose event has an image is an abstract
  step; the change event with an empty file list and an answer with status 204 have none,
  and no abstract step explains what they do.
\<close>

record spec_state =
  spec_file :: "js_file option"
  spec_shown :: "js_string option"
  spec_inflight :: nat

datatype spec_event = SpecSelect js_file | SpecUpload | SpecAnswer "js_string option"

inductive spec_step :: "spec_state \<Rightarrow> spec_event \<Rightarrow> spec_state \<Rightarrow> bool" where
  spec_select: "spec_step a (SpecSelect f) (a\<lparr>spec_file := Some f\<rparr>)"
| spec_upload: "spec_file a = Some f \<Longrightarrow> spec_step a SpecUpload (a\<lparr>spec_inflight := Suc (spec_inflight a)\<rparr>)"
| spec_upload_none: "spec_file a = None \<Longrightarrow> spec_step a SpecUpload a"
| spec_success: "0 < spec_inflight a \<Longrightarrow>
    spec_step a (SpecAnswer (Some t)) (a\<lparr>spec_shown := Some t, spec_inflight := spec_inflight a - 1\<rparr>)"
| spec_failure: "0 < spec_inflight a \<Longrightarrow>
    spec_step a (SpecAnswer None) (a\<lparr>spec_shown := Some error_message, spec_inflight := spec_inflight a - 1\<rparr>)"

inductive_cases spec_step_SelectE: "spec_step a (SpecSelect f) b"
inductive_cases spec_step_UploadE: "spec_step a SpecUpload b"
inductive_cases spec_step_AnswerE: "spec_step a (SpecAnswer r) b"

definition abs_state :: "app_state \<Rightarrow> spec_state" where
  "abs_state s = \<lparr>spec_file = selectedFile (comp s), spec_shown = prediction (comp s),
                  spec_inflight = card (dom (pending s))\<rparr>"

fun answer_of :: "http_outcome \<Rightarrow> js_string option" where
  "answer_of (Received st b) = (if http_ok (load_status st b) then xhr_body st b else None)"
| "answer_of NetworkFailure = None"

fun abs_event :: "app_event \<Rightarrow> spec_event option" where
  "abs_event (FileSelected fs) = map_option SpecSelect (js_index fs 0)"
| "abs_event Upload = Some SpecUpload"
| "abs_event (Settle i out) =
     (if displayed_text out = None then None else Some (SpecAnswer (answer_of out)))"

lemma simulate_select:
  "js_index fs 0 = Some f \<Longrightarrow> spec_step (abs_state s) (SpecSelect f) (abs_state (onFileSelected fs s))"
proof -
  assume "js_index fs 0 = Some f"
  then have "abs_state (onFileSelected fs s) = (abs_state s)\<lparr>spec_file := Some f\<rparr>"
    by (simp add: abs_state_def handler_simps)
  then show ?thesis by (simp add: spec_step.spec_select)
qed

lemma simulate_upload:
  assumes "app_inv s"
  shows "spec_step (abs_state s) SpecUpload (abs_state (onUpload s))"
proof (cases "selectedFile (comp s)")
  case None
  then show ?thesis by (simp add: onUpload_def spec_upload_none abs_state_def)
next
  case (Some f)
  let ?r = "predictDisease (svc s) f"
  have "card (dom ((pending s)(next_req s \<mapsto> ?r))) = Suc (card (dom (pending s)))"
    using app_inv_finite_pending[OF assms] app_inv_next_fresh[OF assms]
    by (simp add: card_insert_if domIff)
  then have "abs_state (onUpload s) = (abs_state s)\<lparr>spec_inflight := Suc (spec_inflight (abs_state s))\<rparr>"
    using Some by (simp add: abs_state_def onUpload_Some handler_simps)
  moreover have "spec_file (abs_state s) = Some f" using Some by (simp add: abs_state_def)
  ultimately show ?thesis by (simp add: spec_step.spec_upload)
qed

lemma simulate_settle:
  assumes "app_inv s" and p: "pending s i = Some req" and d: "displayed_text out \<noteq> None"
  shows "spec_step (abs_state s) (SpecAnswer (answer_of out)) (abs_state (http_settle i out s))"
proof -
  have fin: "finite (dom (pending s))" by (rule app_inv_finite_pending[OF assms(1)])
  have i: "i \<in> dom (pending s)" using p by blast
  have pos: "0 < spec_inflight (abs_state s)"
    using fin i by (auto simp: abs_state_def card_gt_0_iff)
  have c: "card (dom ((pending s)(i := None))) = card (dom (pending s)) - 1"
    using fin i by simp
  show ?thesis
  proof (cases "answer_of out")
    case None
    then have "displayed_text out = Some error_message"
      using d by (cases out) (auto split: if_splits)
    then have eq: "abs_state (http_settle i out s) =
        (abs_state s)\<lparr>spec_shown := Some error_message, spec_inflight := spec_inflight (abs_state s) - 1\<rparr>"
      using c by (simp add: abs_state_def http_settle_simps[OF p])
    show ?thesis using spec_step.spec_failure[OF pos] None by (simp only: eq)
  next
    case (Some t)
    then have "displayed_text out = Some t"
      by (cases out) (auto split: if_splits)
    then have eq: "abs_state (http_settle i out s) =
        (abs_state s)\<lparr>spec_shown := Some t, spec_inflight := spec_inflight (abs_state s) - 1\<rparr>"
      using c by (simp add: abs_state_def http_settle_simps[OF p])
    show ?thesis using spec_step.spec_success[OF pos] Some by (simp only: eq)
  qed
qed

text \<open>C9. Refinement: in a state satisfying the component invariant, every step of the
  component whose event maps to an abstract event is a step of the specification's state
  machine between the abstracted states.\<close>

theorem step_refines_spec:
  assumes "app_inv s" and "step s e t" and "abs_event e = Some a"
  shows "spec_step (abs_state s) a (abs_state t)"
  using assms(2,1,3)
proof (induction rule: step.induct)
  case (select s fs)
  then show ?case by (auto intro: simulate_select)
next
  case (upload s)
  then show ?case by (simp add: simulate_upload)
next
  case (settle s i req out)
  then show ?case by (auto intro: simulate_settle split: if_splits)
qed

theorem step_refines_spec_witness:
  "spec_step (abs_state (onFileSelected [leaf] init_app)) SpecUpload
     (abs_state (onUpload (onFileSelected [leaf] init_app)))"
  using step_refines_spec[OF app_inv_onFileSelected[OF app_inv_init] step.upload, of SpecUpload]
  by simp

text \<open>C10. The refinement has exactly one gap: after selecting a file, a change event with
  an empty file list is a step of the component, yet no step of the specification's machine
  leads from the abstract state before it to the abstract state after it (the selection is
  cleared, which the specification never does).\<close>

theorem cancel_not_in_spec:
  "step (onFileSelected [leaf] init_app) (FileSelected []) (onFileSelected [] (onFileSelected [leaf] init_app))
   \<and> (\<forall>a. \<not> spec_step (abs_state (onFileSelected [leaf] init_app)) a
                        (abs_state (onFileSelected [] (onFileSelected [leaf] init_app))))"
proof
  show "step (onFileSelected [leaf] init_app) (FileSelected []) (onFileSelected [] (onFileSelected [leaf] init_app))"
    by (rule step.select)
next
  show "\<forall>a. \<not> spec_step (abs_state (onFileSelected [leaf] init_app)) a
                        (abs_state (onFileSelected [] (onFileSelected [leaf] init_app)))"
  proof (intro allI notI)
    fix a
    assume "spec_step (abs_state (onFileSelected [leaf] init_app)) a
                      (abs_state (onFileSelected [] (onFileSelected [leaf] init_app)))"
    then show False
      by (cases rule: spec_step.cases) (simp_all add: abs_state_def handler_simps)
  qed
qed


end
