(* ===== verification/Router.thy ===== *)
theory Router
  imports Prelude
begin

text \<open>
  Angular's router for a flat route table (no \<open>children\<close>, no lazy loading, no guards),
  the part of \<open>@angular/router\<close> that the table of \<open>app.routes.ts\<close> exercises. It is
  library code, modelled from its documented behaviour:
  \<^item> a URL path is split into segments (\<open>url_segments\<close>; query, fragment, matrix
    parameters and auxiliary outlets are outside the model);
  \<^item> a route matches a list of segments by its \<open>path\<close> (\<open>match_route\<close>): \<open>''\<close>
    consumes nothing and, with \<open>pathMatch: 'full'\<close>, only matches no segments; \<open>**\<close>
    consumes everything; otherwise the \<open>/\<close>-separated parts of the path must be a prefix
    of the segments (a part \<open>:name\<close> matches any segment), the whole of them for
    \<open>'full'\<close>;
  \<^item> routes are tried in order (\<open>process_routes\<close>): a component route succeeds if it
    consumed every segment and is otherwise skipped (it has no children to go on with); a
    relative redirect replaces the consumed segments by its target and matches again at
    the same level with redirects disabled; an absolute redirect (\<open>redirectTo\<close> starting
    with \<open>/\<close>) abandons the match and restarts recognition on its target; when no route
    matches, an empty URL activates nothing and any other URL fails with \<open>NoMatch\<close>;
  \<^item> absolute redirects may chain, so recognition (\<open>recognize\<close>) carries a redirect budget
    as fuel: running out is \<open>InfiniteRedirect\<close>, Angular's infinite-redirect failure;
    \<open>recognize_unbounded\<close> follows the chain with no budget, as a partial function
    whose \<open>None\<close> is a chain that never ends.
\<close>

datatype path_match = Prefix | Full

record 'c route =
  path :: string
  component :: "'c option"
  redirectTo :: "string option"
  pathMatch :: "path_match option"

datatype nav_error = NoMatch "string list" | InfiniteRedirect

datatype 'c outcome = Matched "'c option" | Redirect "string list" | Unmatched

definition slash :: char where
  "slash = CHR ''/''"

definition url_segments :: "string \<Rightarrow> string list" where
  "url_segments u =
     (let p = (case u of c # r \<Rightarrow> if c = slash then r else u | [] \<Rightarrow> [])
      in if p = [] then [] else js_split slash p)"

definition serialize_url :: "string list \<Rightarrow> string" where
  "serialize_url segs = slash # js_join slash segs"

fun match_parts :: "string list \<Rightarrow> string list \<Rightarrow> bool" where
  "match_parts [] segs = True"
| "match_parts (p # ps) [] = False"
| "match_parts (p # ps) (s # ss) =
     ((case p of c # _ \<Rightarrow> c = CHR '':'' \<or> p = s | [] \<Rightarrow> p = s) \<and> match_parts ps ss)"

definition match_route :: "'c route \<Rightarrow> string list \<Rightarrow> (string list \<times> string list) option" where
  "match_route r segs =
     (if path r = ''**'' then Some (segs, [])
      else if path r = [] then
        (if pathMatch r = Some Full \<and> segs \<noteq> [] then None else Some ([], segs))
      else
        (let parts = js_split slash (path r); n = length parts in
         if length segs < n then None
         else if pathMatch r = Some Full \<and> n < length segs then None
         else if match_parts parts segs then Some (take n segs, drop n segs)
         else None))"

definition is_absolute :: "string \<Rightarrow> bool" where
  "is_absolute t \<longleftrightarrow> take 1 t = [slash]"

function process_routes ::
  "bool \<Rightarrow> 'c route list \<Rightarrow> 'c route list \<Rightarrow> string list \<Rightarrow> 'c outcome"
where
  "process_routes allow rts [] segs = (if segs = [] then Matched None else Unmatched)"
| "process_routes allow rts (r # rs) segs =
     (case match_route r segs of
        None \<Rightarrow> process_routes allow rts rs segs
      | Some (consumed, rest) \<Rightarrow>
          (case redirectTo r of
             None \<Rightarrow>
               (if rest = [] then Matched (component r) else process_routes allow rts rs segs)
           | Some tgt \<Rightarrow>
               (if \<not> allow then process_routes allow rts rs segs
                else if is_absolute tgt then Redirect (url_segments tgt)
                else
                  (case process_routes False rts rts (url_segments tgt @ rest) of
                     Unmatched \<Rightarrow> process_routes allow rts rs segs
                   | res \<Rightarrow> res))))"
  by pat_completeness auto
termination
  by (relation "measures [\<lambda>(allow, rts, rs, segs). if allow then 1 else 0,
                          \<lambda>(allow, rts, rs, segs). length rs]") auto

fun recognize :: "nat \<Rightarrow> 'c route list \<Rightarrow> string list \<Rightarrow> nav_error + 'c option" where
  "recognize fuel rts segs =
     (case process_routes True rts rts segs of
        Matched c \<Rightarrow> Inr c
      | Unmatched \<Rightarrow> Inl (NoMatch segs)
      | Redirect t \<Rightarrow> (if fuel = 0 then Inl InfiniteRedirect else recognize (fuel - 1) rts t))"

text \<open>Recognition with no redirect budget at all: absolute redirects are followed for as long
  as they chain, and \<open>None\<close> is a chain that never ends.\<close>

partial_function (option) recognize_unbounded ::
  "'c route list \<Rightarrow> string list \<Rightarrow> (nav_error + 'c option) option"
where
  "recognize_unbounded rts segs =
     (case process_routes True rts rts segs of
        Matched c \<Rightarrow> Some (Inr c)
      | Unmatched \<Rightarrow> Some (Inl (NoMatch segs))
      | Redirect t \<Rightarrow> recognize_unbounded rts t)"

declare recognize.simps [simp del]

subsection \<open>Fuel\<close>

text \<open>More redirect budget never changes a result that did not run out of it.\<close>

lemma recognize_0:
  "recognize 0 rts segs =
     (case process_routes True rts rts segs of
        Matched c \<Rightarrow> Inr c | Unmatched \<Rightarrow> Inl (NoMatch segs) | Redirect t \<Rightarrow> Inl InfiniteRedirect)"
  by (simp add: recognize.simps split: outcome.split)

lemma recognize_Suc:
  "recognize (Suc n) rts segs =
     (case process_routes True rts rts segs of
        Matched c \<Rightarrow> Inr c | Unmatched \<Rightarrow> Inl (NoMatch segs) | Redirect t \<Rightarrow> recognize n rts t)"
  by (simp add: recognize.simps[of "Suc n"] split: outcome.split)

lemma recognize_fuel_mono:
  "recognize n rts segs \<noteq> Inl InfiniteRedirect \<Longrightarrow>
   recognize (Suc n) rts segs = recognize n rts segs"
proof (induction n arbitrary: segs)
  case 0
  then show ?case by (auto simp: recognize_0 recognize_Suc split: outcome.splits)
next
  case (Suc n)
  show ?case
  proof (cases "process_routes True rts rts segs")
    case (Redirect t)
    with Suc.prems have "recognize n rts t \<noteq> Inl InfiniteRedirect"
      by (simp add: recognize_Suc)
    then have ih: "recognize (Suc n) rts t = recognize n rts t" by (rule Suc.IH)
    have "recognize (Suc (Suc n)) rts segs = recognize (Suc n) rts t"
      using Redirect by (simp add: recognize_Suc[of "Suc n"])
    moreover have "recognize (Suc n) rts segs = recognize n rts t"
      using Redirect by (simp add: recognize_Suc[of n])
    ultimately show ?thesis using ih by simp
  qed (simp_all add: recognize_Suc)
qed

lemma recognize_fuel_mono_add:
  "recognize n rts segs \<noteq> Inl InfiniteRedirect \<Longrightarrow>
   recognize (n + k) rts segs = recognize n rts segs"
  by (induction k) (simp_all add: recognize_fuel_mono)

subsection \<open>Unbounded recognition\<close>

text \<open>The budget is never the reason for a result other than \<open>InfiniteRedirect\<close>:
  unbounded recognition returns exactly the results that some budget gives, and never
  \<open>InfiniteRedirect\<close> itself.\<close>

lemma recognize_unbounded_fuel:
  "recognize n rts segs \<noteq> Inl InfiniteRedirect \<Longrightarrow>
   recognize_unbounded rts segs = Some (recognize n rts segs)"
proof (induction n arbitrary: segs)
  case 0
  then show ?case
    by (auto simp: recognize_0 recognize_unbounded.simps[of rts segs] split: outcome.splits)
next
  case (Suc n)
  then show ?case
    by (auto simp: recognize_Suc recognize_unbounded.simps[of rts segs] split: outcome.splits)
qed

lemma recognize_unbounded_returns:
  assumes ret: "recognize_unbounded rts segs = Some r"
  shows "r \<noteq> Inl InfiniteRedirect \<and> (\<exists>n. recognize n rts segs = r)"
proof (rule recognize_unbounded.raw_induct
    [where P = "\<lambda>rts segs r. r \<noteq> Inl InfiniteRedirect \<and> (\<exists>n. recognize n rts segs = r)", OF _ ret])
  fix f :: "'c route list \<Rightarrow> string list \<Rightarrow> (nav_error + 'c option) option" and rts segs r
  assume IH: "\<And>rts segs r. f rts segs = Some r \<Longrightarrow>
                 r \<noteq> Inl InfiniteRedirect \<and> (\<exists>n. recognize n rts segs = r)"
    and eq: "(case process_routes True rts rts segs of
                Matched c \<Rightarrow> Some (Inr c) | Unmatched \<Rightarrow> Some (Inl (NoMatch segs))
              | Redirect t \<Rightarrow> f rts t) = Some r"
  show "r \<noteq> Inl InfiniteRedirect \<and> (\<exists>n. recognize n rts segs = r)"
  proof (cases "process_routes True rts rts segs")
    case (Redirect t)
    with eq have "f rts t = Some r" by simp
    then obtain n where r: "r \<noteq> Inl InfiniteRedirect" "recognize n rts t = r" using IH by blast
    with Redirect have "recognize (Suc n) rts segs = r" by (simp add: recognize_Suc)
    with r show ?thesis by blast
  qed (use eq in \<open>auto simp: recognize_0 intro!: exI[where x = 0]\<close>)
qed

lemma recognize_unbounded_iff:
  "recognize_unbounded rts segs = Some r \<longleftrightarrow>
   r \<noteq> Inl InfiniteRedirect \<and> (\<exists>n. recognize n rts segs = r)"
proof
  assume "recognize_unbounded rts segs = Some r"
  then show "r \<noteq> Inl InfiniteRedirect \<and> (\<exists>n. recognize n rts segs = r)"
    by (rule recognize_unbounded_returns)
next
  assume "r \<noteq> Inl InfiniteRedirect \<and> (\<exists>n. recognize n rts segs = r)"
  then obtain n where "recognize n rts segs = r" "r \<noteq> Inl InfiniteRedirect" by blast
  then show "recognize_unbounded rts segs = Some r" using recognize_unbounded_fuel by blast
qed

subsection \<open>URLs\<close>

text \<open>Printing non-empty segments without slashes and parsing the result gives the
  segments back.\<close>

lemma url_segments_serialize_url:
  assumes "\<forall>s \<in> set segs. s \<noteq> [] \<and> slash \<notin> set s"
  shows "url_segments (serialize_url segs) = segs"
proof (cases segs)
  case Nil
  then show ?thesis by (simp add: url_segments_def serialize_url_def)
next
  case (Cons s ss)
  with assms have "js_join slash segs \<noteq> []" by (cases ss) auto
  with assms Cons show ?thesis
    by (simp add: url_segments_def serialize_url_def js_split_js_join)
qed

end
