(* ===== verification/App_Routes.thy ===== *)
theory App_Routes
  imports Router
begin

text \<open>
  \<open>src/src/app/app.routes.ts\<close>: the exported \<open>routes\<close> table. The only component it
  names, \<open>PredictDiseaseComponent\<close>, is the single constructor of \<open>view\<close>. The lemmas
  compute its recognition for every URL path: the empty path redirects once to
  \<open>/predict\<close>, which renders the view, and every other path fails; one unit of redirect
  budget is enough and is needed.
\<close>

datatype view = PredictDiseaseView

definition routes :: "view route list" where
  "routes =
     [\<lparr>path = ''predict'', component = Some PredictDiseaseView, redirectTo = None, pathMatch = None\<rparr>,
      \<lparr>path = '''', component = None, redirectTo = Some ''/predict'', pathMatch = Some Full\<rparr>]"

lemma js_split_predict: "js_split slash ''predict'' = [''predict'']"
  by (simp add: js_split_sep_free slash_def)

text \<open>One pass over the table, for any segments: the empty URL hits the redirect,
  \<open>predict\<close> alone hits the component route, anything else matches nothing.\<close>

lemma process_routes_app:
  "process_routes True routes routes segs =
     (if segs = [] then Redirect [''predict'']
      else if segs = [''predict''] then Matched (Some PredictDiseaseView) else Unmatched)"
proof (cases segs)
  case Nil
  then show ?thesis
    by (simp add: routes_def match_route_def is_absolute_def url_segments_def slash_def)
next
  case (Cons s ss)
  then show ?thesis
    by (cases ss) (auto simp: routes_def match_route_def js_split_predict simp del: js_split.simps)
qed

text \<open>C7. With a redirect budget of at least one, recognition of the table renders the
  prediction view for exactly the segment lists \<open>[]\<close> and \<open>[predict]\<close> and fails with
  \<open>NoMatch\<close> for every other one; with no budget the empty URL cannot follow its
  redirect.\<close>

theorem routes_recognize:
  assumes "0 < fuel"
  shows "recognize fuel routes segs =
           (if segs = [] \<or> segs = [''predict''] then Inr (Some PredictDiseaseView)
            else Inl (NoMatch segs))
         \<and> recognize 0 routes [] = Inl InfiniteRedirect"
proof -
  from assms obtain n where n: "fuel = Suc n" by (cases fuel) auto
  have p: "recognize n routes [''predict''] = Inr (Some PredictDiseaseView)"
    by (cases n) (simp_all add: recognize_0 recognize_Suc process_routes_app)
  show ?thesis
    using p by (simp add: n recognize_Suc recognize_0 process_routes_app)
qed

theorem routes_recognize_witness:
  "recognize 1 routes [''predict'', ''x''] = Inl (NoMatch [''predict'', ''x''])
   \<and> recognize 1 routes [] = Inr (Some PredictDiseaseView)"
  using routes_recognize[of 1 "[''predict'', ''x'']"] routes_recognize[of 1 "[]"] by simp

end
