(* ===== verification/Multipart.thy ===== *)
theory Multipart
  imports Http_Client "HOL-Library.Sublist" "HOL-Library.Monad_Syntax"
begin

text \<open>
  The body the browser puts on the wire for \<open>HttpClient.post(url, formData)\<close>: the
  multipart/form-data encoding of a \<open>FormData\<close> (RFC 7578, as the HTML standard's
  encoding algorithm fixes it), and the decoder a server applies to it. Each entry becomes
  a part between boundary delimiters, with a \<open>Content-Disposition\<close> header naming the
  field (and, for a file, its file name), a \<open>Content-Type\<close> header for a file (the
  file's type, or \<open>application/octet-stream\<close> when it has none), an empty line, and the
  content. The decoder strips the opening delimiter, then splits the rest at each
  \<open>CRLF--boundary\<close> (\<open>split_at\<close>, the first occurrence of a delimiter) and parses
  each part's headers. It is a \<open>function\<close> whose termination proof shows the remaining
  input shrinks at each part.

  The encoding is invertible when the boundary does not occur in a part (the standard's
  requirement on the boundary the browser chooses), field and file names have no double
  quote, and the type no carriage return (\<open>entry_ok\<close>): decoding then gives back the
  entries, with the file type the browser sent (\<open>normalize_entry\<close>).
\<close>


type_synonym bytes = "8 word list"

definition byte_of :: "char \<Rightarrow> 8 word" where
  "byte_of c = of_nat (of_char c)"

definition ascii :: "string \<Rightarrow> bytes" where
  "ascii s = map byte_of s"

definition char_of_byte :: "8 word \<Rightarrow> char" where
  "char_of_byte w = char_of (unat w)"

definition crlf :: bytes where
  "crlf = [13, 10]"

definition dashes :: bytes where
  "dashes = [45, 45]"

fun split_at :: "'a list \<Rightarrow> 'a list \<Rightarrow> ('a list \<times> 'a list) option" where
  "split_at d [] = (if d = [] then Some ([], []) else None)"
| "split_at d (x # xs) =
     (if prefix d (x # xs) then Some ([], drop (length d) (x # xs))
      else map_option (\<lambda>(a, r). (x # a, r)) (split_at d xs))"

definition quote :: bytes where
  "quote = [34]"

definition disposition_prefix :: bytes where
  "disposition_prefix = ascii ''Content-Disposition: form-data; name=''"

definition filename_infix :: bytes where
  "filename_infix = ascii ''; filename=''"

definition content_type_prefix :: bytes where
  "content_type_prefix = ascii ''Content-Type: ''"

definition mime_type :: "js_file \<Rightarrow> string" where
  "mime_type f = (if file_type f = [] then ''application/octet-stream'' else file_type f)"

fun part_bytes :: "string \<times> form_value \<Rightarrow> bytes" where
  "part_bytes (n, FormFile f) =
     disposition_prefix @ quote @ ascii n @ quote @ filename_infix @ quote @ ascii (file_name f) @ quote @
     crlf @ content_type_prefix @ ascii (mime_type f) @ crlf @ crlf @ file_bytes f"
| "part_bytes (n, FormString v) =
     disposition_prefix @ quote @ ascii n @ quote @ crlf @ crlf @ ascii v"

definition multipart_encode :: "bytes \<Rightarrow> form_data \<Rightarrow> bytes" where
  "multipart_encode b fd =
     dashes @ b @ concat (map (\<lambda>e. crlf @ part_bytes e @ crlf @ dashes @ b) fd) @ dashes @ crlf"

definition strip_prefix :: "'a list \<Rightarrow> 'a list \<Rightarrow> 'a list option" where
  "strip_prefix p xs = (if prefix p xs then Some (drop (length p) xs) else None)"

definition to_string :: "bytes \<Rightarrow> string" where
  "to_string bs = map char_of_byte bs"

definition parse_part :: "bytes \<Rightarrow> (string \<times> form_value) option" where
  "parse_part p = do {
     r1 \<leftarrow> strip_prefix (disposition_prefix @ quote) p;
     (n, r2) \<leftarrow> split_at quote r1;
     if prefix (filename_infix @ quote) r2 then do {
       r3 \<leftarrow> strip_prefix (filename_infix @ quote) r2;
       (fname, r4) \<leftarrow> split_at quote r3;
       r5 \<leftarrow> strip_prefix (crlf @ content_type_prefix) r4;
       (ty, r6) \<leftarrow> split_at crlf r5;
       c \<leftarrow> strip_prefix crlf r6;
       Some (to_string n,
             FormFile \<lparr>file_name = to_string fname, file_type = to_string ty, file_bytes = c\<rparr>)
     } else do {
       v \<leftarrow> strip_prefix (crlf @ crlf) r2;
       Some (to_string n, FormString (to_string v))
     }
   }"

function decode_parts :: "bytes \<Rightarrow> bytes \<Rightarrow> form_data option" where
  "decode_parts b rest =
     (if rest = dashes @ crlf then Some []
      else case strip_prefix crlf rest of
        None \<Rightarrow> None
      | Some r \<Rightarrow>
          (case split_at (crlf @ dashes @ b) r of
             None \<Rightarrow> None
           | Some (p, r') \<Rightarrow>
               (case parse_part p of
                  None \<Rightarrow> None
                | Some e \<Rightarrow> map_option (Cons e) (decode_parts b r'))))"
  by pat_completeness auto
termination
proof (relation "measure (\<lambda>(b, rest). length rest)", goal_cases)
  case 1
  then show ?case by simp
next
  case (2 b rest r x p r')
  have len: "\<And>d xs a r. split_at d xs = Some (a, r) \<Longrightarrow> length r + length d \<le> length xs"
  proof -
    fix d xs a r
    show "split_at d xs = Some (a, r) \<Longrightarrow> length r + length d \<le> length xs"
      by (induction d xs arbitrary: a rule: split_at.induct)
         (auto split: if_splits dest: prefix_length_le)
  qed
  from 2 have "length r < length rest"
    by (auto simp: strip_prefix_def crlf_def split: if_splits dest!: prefix_length_le)
  moreover from 2 len[of "crlf @ dashes @ b" r p r'] have "length r' \<le> length r"
    by simp
  ultimately show ?case by simp
qed

definition multipart_decode :: "bytes \<Rightarrow> bytes \<Rightarrow> form_data option" where
  "multipart_decode b body =
     (case strip_prefix (dashes @ b) body of None \<Rightarrow> None | Some r \<Rightarrow> decode_parts b r)"

definition entry_ok :: "bytes \<Rightarrow> string \<times> form_value \<Rightarrow> bool" where
  "entry_ok b e \<longleftrightarrow>
     (34::8 word) \<notin> set (ascii (fst e)) \<and>
     \<not> sublist (crlf @ dashes @ b) (part_bytes e @ butlast (crlf @ dashes @ b)) \<and>
     (case snd e of
        FormFile f \<Rightarrow> (34::8 word) \<notin> set (ascii (file_name f)) \<and> (13::8 word) \<notin> set (ascii (mime_type f))
      | FormString v \<Rightarrow> True)"

fun normalize_entry :: "string \<times> form_value \<Rightarrow> string \<times> form_value" where
  "normalize_entry (n, FormFile f) = (n, FormFile (f\<lparr>file_type := mime_type f\<rparr>))"
| "normalize_entry (n, FormString v) = (n, FormString v)"

lemma char_of_byte_byte_of [simp]: "char_of_byte (byte_of c) = c"
proof -
  have "of_char c < (256::nat)" by (metis of_char_mod_256 mod_less_divisor zero_less_numeral)
  then have "unat (of_nat (of_char c) :: 8 word) = of_char c"
    by (simp add: unat_of_nat take_bit_nat_eq_self_iff)
  then show ?thesis by (simp add: char_of_byte_def byte_of_def)
qed

lemma split_at_found:
  assumes "d \<noteq> []" and "\<not> sublist d (a @ butlast d)"
  shows "split_at d (a @ d @ b) = Some (a, b)"
  using assms(2)
proof (induction a)
  case Nil
  from assms(1) show ?case by (cases d) auto
next
  case (Cons x a)
  have np: "\<not> prefix d (x # a @ d @ b)"
  proof
    assume "prefix d (x # a @ d @ b)"
    moreover have "length d \<le> length (x # a @ butlast d)"
      using assms(1) by simp
    moreover have "prefix (x # a @ butlast d) (x # a @ d @ b)"
      using prefixeq_butlast[of d] by (auto simp: prefix_def) (metis append.assoc)
    ultimately have "prefix d (x # a @ butlast d)"
      by (metis prefix_length_prefix)
    then show False using Cons.prems by (simp add: prefix_imp_sublist)
  qed
  have "\<not> sublist d (a @ butlast d)"
    using Cons.prems by (auto simp: sublist_Cons_right)
  with Cons.IH np show ?case by simp
qed

lemma strip_prefix_simps [simp]:
  "strip_prefix [] xs = Some xs"
  "strip_prefix (x # p) [] = None"
  "strip_prefix (x # p) (y # ys) = (if x = y then strip_prefix p ys else None)"
  "strip_prefix (p @ q) (p @ ys) = strip_prefix q ys"
  "strip_prefix p (p @ ys) = Some ys"
  by (simp_all add: strip_prefix_def)

lemma to_string_ascii [simp]: "to_string (ascii s) = s"
  by (induction s) (simp_all add: to_string_def ascii_def)

lemma sublist_singleton_iff: "sublist [x] xs \<longleftrightarrow> x \<in> set xs"
  by (induction xs) (auto simp: sublist_Cons_right)

lemma split_at_single:
  "x \<notin> set a \<Longrightarrow> split_at [x] (a @ x # b) = Some (a, b)"
  using split_at_found[of "[x]" a b] by (simp add: sublist_singleton_iff)

lemma not_sublist_crlf: "(13::8 word) \<notin> set a \<Longrightarrow> \<not> sublist [13, 10] (a @ [13 :: 8 word])"
proof (induction a)
  case Nil
  then show ?case by (auto simp: sublist_Cons_right)
next
  case (Cons x a)
  then show ?case by (auto simp: sublist_Cons_right)
qed

lemma split_at_crlf:
  "(13::8 word) \<notin> set a \<Longrightarrow> split_at [13, 10] (a @ 13 # 10 # b) = Some (a, b)"
  using split_at_found[of "[13, 10]" a b] not_sublist_crlf[of a] by simp

lemma parse_part_file:
  assumes "(34::8 word) \<notin> set (ascii n)" and "(34::8 word) \<notin> set (ascii (file_name f))"
    and "(13::8 word) \<notin> set (ascii (mime_type f))"
  shows "parse_part (part_bytes (n, FormFile f)) = Some (n, FormFile (f\<lparr>file_type := mime_type f\<rparr>))"
  using assms
  by (simp add: parse_part_def quote_def crlf_def split_at_single split_at_crlf del: split_at.simps)


lemma filename_infix_not_crlf: "\<not> prefix (filename_infix @ xs) (13 # ys)"
  by (simp add: filename_infix_def ascii_def byte_of_def)

lemma parse_part_string:
  assumes "(34::8 word) \<notin> set (ascii n)"
  shows "parse_part (part_bytes (n, FormString v)) = Some (n, FormString v)"
  using assms
  by (simp add: parse_part_def quote_def crlf_def split_at_single filename_infix_not_crlf
      del: split_at.simps)

lemma parse_part_entry:
  assumes "entry_ok b e"
  shows "parse_part (part_bytes e) = Some (normalize_entry e)"
proof (cases e rule: normalize_entry.cases)
  case (1 n f)
  with parse_part_file[of n f] show ?thesis
    using \<open>entry_ok b e\<close> by (simp add: entry_ok_def del: part_bytes.simps)
next
  case (2 n v)
  with parse_part_string[of n v] show ?thesis
    using \<open>entry_ok b e\<close> by (simp add: entry_ok_def del: part_bytes.simps)
qed

lemma decode_parts_encode:
  "\<forall>e \<in> set fd. entry_ok b e \<Longrightarrow>
   decode_parts b (concat (map (\<lambda>e. crlf @ part_bytes e @ crlf @ dashes @ b) fd) @ dashes @ crlf)
     = Some (map normalize_entry fd)"
proof (induction fd)
  case Nil
  then show ?case by (subst decode_parts.simps) simp
next
  case (Cons e fd)
  let ?d = "crlf @ dashes @ b"
  let ?rest = "concat (map (\<lambda>e. crlf @ part_bytes e @ crlf @ dashes @ b) fd) @ dashes @ crlf"
  from Cons.prems have ok: "entry_ok b e" and oks: "\<forall>e \<in> set fd. entry_ok b e" by simp_all
  have sp: "split_at ?d (part_bytes e @ ?d @ ?rest) = Some (part_bytes e, ?rest)"
    using ok by (intro split_at_found) (simp_all add: entry_ok_def crlf_def)
  have ne: "crlf @ part_bytes e @ ?d @ ?rest \<noteq> dashes @ crlf"
    by (simp add: crlf_def dashes_def)
  show ?case
    apply (subst decode_parts.simps)
    using ne sp parse_part_entry[OF ok] Cons.IH[OF oks]
    by (simp del: split_at.simps)
qed

lemma multipart_roundtrip:
  "\<forall>e \<in> set fd. entry_ok b e \<Longrightarrow>
   multipart_decode b (multipart_encode b fd) = Some (map normalize_entry fd)"
  using decode_parts_encode[of fd b]
  by (simp add: multipart_decode_def multipart_encode_def)

end
