(* ===== verification/Spec2Isabelle.thy ===== *)
theory Spec2Isabelle
  imports Component_Spec App_Routes Multipart
begin

text \<open>
  \<^bold>\<open>A verification library for plantDiseaseIA_angular.\<close>

  The program is an Angular single-page client of three source files under \<open>src/src/app\<close>:
  \<^item> \<open>service/plant-disease.service.ts\<close>, \<open>PlantDiseaseService\<close>: its field \<open>apiUrl\<close>
    and \<open>predictDisease(file)\<close>, which puts the file in a \<open>FormData\<close> under the
    name \<open>file\<close> and returns \<open>HttpClient.post(apiUrl, formData, {responseType: 'text'})\<close>;
  \<^item> \<open>features/predict-disease/predict-disease.component.ts\<close>,
    \<open>PredictDiseaseComponent\<close>: the fields \<open>selectedFile\<close> and \<open>prediction\<close>, the
    handler \<open>onFileSelected\<close> of the file picker and the handler \<open>onUpload\<close> of the
    button, which subscribes to \<open>predictDisease\<close> with a success and an error callback;
  \<^item> \<open>app.routes.ts\<close>, \<open>routes\<close>: the route table, with the path \<open>predict\<close> rendering
    the component and the empty path redirecting (full match) to \<open>/predict\<close>.
  The router creates the component for the URL; the component calls the service; the
  service returns an observable whose notifications come back to the component's callbacks.

  \<^bold>\<open>Theories.\<close>
  \<^item> \<open>Prelude\<close>: JavaScript strings as lists of UTF-16 code units (\<open>16 word\<close>),
    \<open>files[0]\<close> as \<open>js_index\<close> (\<open>None\<close> for \<open>undefined\<close>), \<open>split\<close>/\<open>join\<close>
    with their round-trip lemmas, and the collection \<open>handler_simps\<close>.
  \<^item> \<open>Http_Client\<close>: the platform the code is written against, modelled from its
    contract and not from source: \<open>File\<close>, \<open>FormData\<close> (an ordered list of entries),
    the request value of \<open>HttpClient.post\<close>, the outcome the server or the network gives
    (\<open>Received status body\<close> or \<open>NetworkFailure\<close>), the notifications of the
    text-typed observable as Angular's XHR backend produces them (1223 read as 204, a
    \<open>null\<close> body for 204, status 0 with a body read as 200; then \<open>Next body, Complete\<close>
    for a 2xx status and \<open>Error\<close> otherwise) and \<open>deliver\<close>, the RxJS subscriber
    that stops at the first terminal notification.
  \<^item> \<open>Angular_Core\<close>: the part of \<open>@angular/core\<close> the decorators rely on, modelled
    from its documentation: the root injector (\<open>inject\<close>: the cached instance, else the
    factory's, else \<open>NoProvider\<close>) and the component metadata.
  \<^item> \<open>Multipart\<close>: the browser's \<open>multipart/form-data\<close> serialisation of a
    \<open>FormData\<close> body (RFC 7578: a boundary line, a \<open>Content-Disposition\<close> header with
    the field and file name, a \<open>Content-Type\<close> header for files, the bytes) and a
    server-side decoder (\<open>split_at\<close> on the delimiter, a terminating \<open>function\<close>),
    with their round trip for every boundary that does not occur in a part.
  \<^item> \<open>Plant_Disease_Service\<close>: the service record, its \<open>@Injectable\<close> metadata, its
    constructor and its injection, and \<open>predictDisease\<close>, which is the request the cold
    observable sends when subscribed.
  \<^item> \<open>Predict_Disease_Component\<close>: the component's \<open>@Component\<close> metadata, its
    constructor (\<open>new_PredictDiseaseComponent\<close>, which asks the root injector for the
    service), the component record and its handlers
    (\<open>onFileSelected\<close>, \<open>onUpload\<close>, and the callbacks \<open>onUpload_next\<close>,
    \<open>onUpload_error\<close>) as functions on \<open>app_state\<close>, which adds to the component
    the service, the outstanding requests by number, the requests sent, and the console.
    \<open>http_subscribe\<close> is what \<open>subscribe\<close> does to that world (send, remember);
    \<open>http_settle\<close> is the arrival of one answer, delivered to the callbacks. The event
    loop is \<open>app_step\<close> on \<open>app_event\<close>s (a selection, a click, an answer), the
    inductive \<open>step\<close> allows an answer only for an outstanding request, \<open>reachable\<close>
    closes the fresh component under steps, and \<open>run\<close>/\<open>valid_run\<close> follow an
    explicit sequence of events, so that interleavings of uploads and answers are stated
    as event lists.
  \<^item> \<open>Component_Spec\<close>: the specification's state machine of section 4.2 as the
    inductive \<open>spec_step\<close> on \<open>spec_state\<close> (selection, displayed text, uploads in
    flight), the abstraction \<open>abs_state\<close>/\<open>abs_event\<close> from the component, and the
    simulation lemmas, one per handler.
  \<^item> \<open>Router\<close>: Angular's recognition of flat route tables, library code modelled from
    its documented behaviour: URL paths as segments (\<open>url_segments\<close>, with a print/parse
    round trip), \<open>match_route\<close> (empty, wildcard, prefix and full matching, \<open>:param\<close>
    parts), first-match \<open>process_routes\<close> (a terminating \<open>function\<close>: a relative
    redirect re-matches once with redirects disabled), \<open>recognize\<close> with a budget of
    absolute redirects, and \<open>recognize_unbounded\<close>, the same recognition with no budget.
  \<^item> \<open>App_Routes\<close>: the table \<open>routes\<close> and its recognition for every URL.
  \<^item> This theory: start-up across router, injector and component (\<open>boot\<close>), runs
    from the fresh component, and the wire format of the request \<open>predictDisease\<close>
    sends.

  \<^bold>\<open>What is proved.\<close> Upload with a file sends exactly one POST whose body is the one
  field \<open>file\<close> with that file, and upload without a file does nothing (C1, C2); a 2xx
  answer other than 204 is shown verbatim, any failure shows the fixed message and logs the
  error (C3, C4), and a 204 answer clears the page and logs nothing (C16). Over any run the
  page shows the last answer to arrive (C5), so an older upload's answer can overwrite a
  newer one's (the stale-update hazard of the specification's section 5). A cancelled
  picker clears the selection (C6); an empty file list sends nothing and a list of several
  files sends the first (C12); \<open>n\<close> clicks send \<open>n\<close> requests, with no debouncing
  (C13). The console only ever records failures, under the fixed message (C15). The route
  table renders the view for exactly \<open>''\<close> and \<open>predict\<close> with one unit of redirect
  budget (C7). End to end, any file and any answer give one request and the answer's
  displayed text (C8); start-up at a URL (\<open>boot\<close>: recognition, then creation through the
  injector) gives the initial state for the two routed URLs, \<open>NoMatch\<close> elsewhere, and
  \<open>NoProvider\<close> when \<open>HttpClient\<close> is missing (C14). The component refines the
  specification's state machine step by step (C9), except for the empty selection and for
  a 204 answer on a page that shows a text, which no abstract step explains (C10, C17).
  The body \<open>predictDisease\<close> sends decodes, after the browser's multipart encoding, to
  exactly the one field \<open>file\<close> with the file (C11).

  \<^bold>\<open>Fuel.\<close> The only unbounded chain is a sequence of absolute redirects, which
  Angular breaks off with an infinite-redirect error; \<open>recognize\<close> takes the remaining
  budget as fuel and returns \<open>InfiniteRedirect\<close> when it is spent. More fuel never changes
  a result that did not run out (\<open>recognize_fuel_mono\<close>); for this table one redirect is
  enough for every URL and needed for the root (C7). Without a budget the chain is
  followed by the partial function \<open>recognize_unbounded\<close>, whose \<open>None\<close> is a chain that
  never ends; it returns exactly the results some budget gives. Every other definition is
  structurally recursive or has a termination proof (\<open>process_routes\<close> by the redirect
  flag and the remaining routes, \<open>decode_parts\<close> by the length of the undecoded bytes).

  \<^bold>\<open>Not modelled.\<close> The HTML template and styles (not in \<open>src\<close>; the metadata
  only names them), the ES module \<open>import\<close> lines (resolved by the theory imports),
  the HTTP framing around the multipart body, HTTP interceptors and the
  \<open>HttpErrorResponse\<close> fields other than status and body, the router's children,
  guards, lazy loading, query and matrix parameters, and the destruction of the component
  (the application has a single view, which is never destroyed while routed). The HTTP
  layer follows the XHR backend, the default of \<open>provideHttpClient()\<close>; the application
  configuration that would choose the fetch backend is not in \<open>src\<close>. Every
  operation of the three source files is modelled; what the map leaves out are the
  \<open>import\<close> lines and closing braces.

  The cancel-and-replace design that the specification's design notes recommend is a
  redesign with no code in the repository, so it is not modelled; C5 and C13 state the
  behaviour that design would change.
\<close>

subsection \<open>The application end to end\<close>

text \<open>The run of the specification's scenarios: pick one file, click upload, and the
  server's answer arrives.\<close>

definition select_upload_answer :: "js_file \<Rightarrow> http_outcome \<Rightarrow> app_event list" where
  "select_upload_answer f out = [FileSelected [f], Upload, Settle 0 out]"

text \<open>A boundary of the form browsers generate, for the witnesses of the wire format.\<close>

definition example_boundary :: bytes where
  "example_boundary = ascii ''----WebKitFormBoundaryXyZ''"

text \<open>Start-up at a URL, across the three parts: the router recognises the URL (following
  redirects with no budget), and if it selects the prediction view the component is
  created through the empty root injector. Each failure is a value: a recognition error or
  an injection error.\<close>

datatype boot_error = RouteError nav_error | InjectError di_error

definition boot :: "http_client option \<Rightarrow> string \<Rightarrow> boot_error + app_state option" where
  "boot hp u =
     (case recognize_unbounded routes (url_segments u) of
        None \<Rightarrow> Inl (RouteError InfiniteRedirect)
      | Some (Inl e) \<Rightarrow> Inl (RouteError e)
      | Some (Inr None) \<Rightarrow> Inr None
      | Some (Inr (Some PredictDiseaseView)) \<Rightarrow>
          (case new_PredictDiseaseComponent hp None of
             Inl e \<Rightarrow> Inl (InjectError e)
           | Inr ((c, s), _) \<Rightarrow> Inr (Some (init_app\<lparr>comp := c, svc := s\<rparr>))))"

text \<open>C8. From the freshly created component, selecting any file, uploading it and
  receiving any answer is a valid run; it sends exactly the one request of
  \<open>predictDisease\<close> for that file, keeps the file selected, and shows the answer's
  displayed text (the body of a 2xx answer, none for 204, the fixed message otherwise).\<close>

theorem select_upload_answer_shows:
  "valid_run init_app (select_upload_answer f out)
   \<and> network (run init_app (select_upload_answer f out)) = [predictDisease init_plant_disease_service f]
   \<and> selectedFile (comp (run init_app (select_upload_answer f out))) = Some f
   \<and> prediction (comp (run init_app (select_upload_answer f out))) = displayed_text out"
proof -
  let ?s = "onUpload (onFileSelected [f] init_app)"
  have p: "pending ?s 0 = Some (predictDisease init_plant_disease_service f)"
    by (simp add: onUpload_Some handler_simps init_app_def)
  have u: "network ?s = [predictDisease init_plant_disease_service f]"
    "selectedFile (comp ?s) = Some f"
    by (simp_all add: onUpload_Some handler_simps init_app_def)
  show ?thesis
    using p u by (simp add: select_upload_answer_def http_settle_simps[OF p])
qed

text \<open>C11. The request body \<open>predictDisease\<close> builds reaches the server intact: for
  any boundary that does not occur in the part, encoding the form data as
  \<open>multipart/form-data\<close> and decoding it as the server does gives back exactly one field,
  named \<open>file\<close>, carrying the file's name and bytes (its type defaulted as the browser
  does when it is empty).\<close>

theorem predictDisease_wire_roundtrip:
  assumes "entry_ok b (''file'', FormFile f)"
  shows "multipart_decode b (multipart_encode b (req_body (predictDisease service f)))
           = Some [(''file'', FormFile (f\<lparr>file_type := mime_type f\<rparr>))]"
  using multipart_roundtrip[of "[(''file'', FormFile f)]" b] assms
  by (simp add: predictDisease_request)

theorem predictDisease_wire_roundtrip_witness:
  "entry_ok example_boundary (''file'', FormFile leaf) \<and>
   multipart_decode example_boundary
     (multipart_encode example_boundary (req_body (predictDisease init_plant_disease_service leaf)))
     = Some [(''file'', FormFile leaf)]"
proof -
  have ok: "entry_ok example_boundary (''file'', FormFile leaf)"
    by (simp add: entry_ok_def example_boundary_def leaf_def ascii_def byte_of_def crlf_def dashes_def
        disposition_prefix_def quote_def filename_infix_def content_type_prefix_def mime_type_def
        sublist_Cons_right)
  have "mime_type leaf = file_type leaf" by (simp add: mime_type_def leaf_def)
  then show ?thesis using predictDisease_wire_roundtrip[OF ok] ok by simp
qed

text \<open>C14. Starting the application at a URL, with \<open>HttpClient\<close> provided, yields exactly
  the initial state of the component for the root URL and \<open>/predict\<close>, and the router's
  \<open>NoMatch\<close> error for every other URL; without a provider for \<open>HttpClient\<close> the two
  routed URLs fail with the injector's \<open>NoProvider\<close> error instead.\<close>

theorem boot_url:
  "boot (Some HttpClient) u =
     (if url_segments u = [] \<or> url_segments u = [''predict''] then Inr (Some init_app)
      else Inl (RouteError (NoMatch (url_segments u))))
   \<and> boot None u =
     (if url_segments u = [] \<or> url_segments u = [''predict''] then Inl (InjectError (NoProvider ''HttpClient''))
      else Inl (RouteError (NoMatch (url_segments u))))"
proof -
  have r: "recognize_unbounded routes (url_segments u) =
     Some (if url_segments u = [] \<or> url_segments u = [''predict''] then Inr (Some PredictDiseaseView)
           else Inl (NoMatch (url_segments u)))"
    by (simp add: recognize_unbounded.simps[of routes "url_segments u"]
        recognize_unbounded.simps[of routes "[''predict'']"] process_routes_app)
  have c: "new_PredictDiseaseComponent (Some HttpClient) None =
             Inr ((init_predict_disease_component, init_plant_disease_service), Some init_plant_disease_service)"
    "new_PredictDiseaseComponent None None = Inl (NoProvider ''HttpClient'')"
    by (simp_all add: new_PredictDiseaseComponent_def inject_PlantDiseaseService_def inject_def
        plantDiseaseService_injectable_def init_plant_disease_service_def)
  have "init_app\<lparr>comp := init_predict_disease_component, svc := init_plant_disease_service\<rparr> = init_app"
    by (simp add: init_app_def)
  with r c show ?thesis by (simp add: boot_def)
qed
end
